theory Spec2Isabelle
  imports Main "HOL-Library.AList"
begin

section \<open>Python values, errors and outcomes\<close>

text \<open>
  The flag table of \<^verbatim>\<open>IPython/config/application.py\<close> is an untyped
  dictionary: the constructor inspects its values with \<^verbatim>\<open>len\<close>, indexing and
  \<^verbatim>\<open>isinstance\<close>. The values it may meet are modelled by one datatype. A
  \<^verbatim>\<open>dict\<close> is an association list in iteration order whose keys are values of
  any kind; a \<^verbatim>\<open>Config\<close> is one keyed by strings (section and attribute names).
  A sequence of another type (a deque) behaves as a list does.
\<close>

datatype py_value =
    PNone
  | PInt int
  | PStr string
  | PTuple "py_value list"
  | PList "py_value list"
  | PDict "(py_value \<times> py_value) list"
  | PConfig "(string \<times> py_value) list"

type_synonym config = "(string \<times> py_value) list"

text \<open>
  Exceptions are values. \<open>AssertionError key value\<close> stands for the assertion error
  whose message is \<^verbatim>\<open>"Bad flag: %r:%s" % (key, value)\<close>.
\<close>

datatype py_error =
    AssertionError string py_value
  | TypeError
  | KeyError py_value
  | IndexError
  | ValueError
  | AttributeError
  | TraitError
  | LoaderError string

text \<open>
  How a call ends: it returns, it ends the process through \<^verbatim>\<open>sys.exit(n)\<close>, or an
  exception leaves it.
\<close>

datatype outcome = Returned | Exited int | Raised py_error

text \<open>\<^verbatim>\<open>len(value)\<close>: a type error for a value that has no length.\<close>

fun py_len :: "py_value \<Rightarrow> py_error + nat" where
  "py_len (PStr s) = Inr (length s)"
| "py_len (PTuple xs) = Inr (length xs)"
| "py_len (PList xs) = Inr (length xs)"
| "py_len (PDict kvs) = Inr (length kvs)"
| "py_len (PConfig kvs) = Inr (length kvs)"
| "py_len PNone = Inl TypeError"
| "py_len (PInt n) = Inl TypeError"

text \<open>
  \<^verbatim>\<open>value[i]\<close> for the integer indices \<open>0\<close> and \<open>1\<close> the constructor uses. A
  sequence is indexed by position; a string gives a string of one character; a
  dictionary gives the value stored under the integer key, and a key error when it has no
  such key; a \<^verbatim>\<open>Config\<close> rejects a key that is not a string.
\<close>

fun py_getitem :: "py_value \<Rightarrow> nat \<Rightarrow> py_error + py_value" where
  "py_getitem (PTuple xs) i = (if i < length xs then Inr (xs ! i) else Inl IndexError)"
| "py_getitem (PList xs) i = (if i < length xs then Inr (xs ! i) else Inl IndexError)"
| "py_getitem (PStr s) i = (if i < length s then Inr (PStr [s ! i]) else Inl IndexError)"
| "py_getitem (PDict kvs) i =
     (case map_of kvs (PInt (int i)) of
        None \<Rightarrow> Inl (KeyError (PInt (int i)))
      | Some v \<Rightarrow> Inr v)"
| "py_getitem (PConfig kvs) i = Inl TypeError"
| "py_getitem PNone i = Inl TypeError"
| "py_getitem (PInt n) i = Inl TypeError"

text \<open>\<^verbatim>\<open>isinstance(v, (dict, Config))\<close> and \<^verbatim>\<open>isinstance(v, basestring)\<close>.\<close>

fun isinstance_mapping :: "py_value \<Rightarrow> bool" where
  "isinstance_mapping (PDict kvs) = True"
| "isinstance_mapping (PConfig kvs) = True"
| "isinstance_mapping _ = False"

fun isinstance_basestring :: "py_value \<Rightarrow> bool" where
  "isinstance_basestring (PStr s) = True"
| "isinstance_basestring _ = False"

text \<open>
  The tuple unpacking \<^verbatim>\<open>(cfg, help) = value\<close> of \<^verbatim>\<open>print_flag_help\<close>:
  any iterable of exactly two items unpacks (a dictionary iterates over its keys); another
  number of items is a value error, a value that is not iterable a type error.
\<close>

fun unpack2 :: "py_value \<Rightarrow> py_error + (py_value \<times> py_value)" where
  "unpack2 (PTuple xs) = (case xs of [a, b] \<Rightarrow> Inr (a, b) | _ \<Rightarrow> Inl ValueError)"
| "unpack2 (PList xs) = (case xs of [a, b] \<Rightarrow> Inr (a, b) | _ \<Rightarrow> Inl ValueError)"
| "unpack2 (PStr s) = (case s of [a, b] \<Rightarrow> Inr (PStr [a], PStr [b]) | _ \<Rightarrow> Inl ValueError)"
| "unpack2 (PDict kvs) =
     (case kvs of [(a, _), (b, _)] \<Rightarrow> Inr (a, b) | _ \<Rightarrow> Inl ValueError)"
| "unpack2 (PConfig kvs) =
     (case kvs of [(a, _), (b, _)] \<Rightarrow> Inr (PStr a, PStr b) | _ \<Rightarrow> Inl ValueError)"
| "unpack2 PNone = Inl TypeError"
| "unpack2 (PInt n) = Inl TypeError"

section \<open>The application object\<close>

text \<open>
  A declared attribute of a class (a trait with \<^verbatim>\<open>config=True\<close>): the name of its
  trait class and its \<^verbatim>\<open>help\<close> metadata, \<open>None\<close> when it has none.
\<close>

record trait =
  trait_type :: string
  trait_help :: "string option"

text \<open>
  A class of the registry: its \<^verbatim>\<open>__name__\<close>, its configurable traits
  (\<^verbatim>\<open>class_traits(config=True)\<close>) and the lines its own
  \<^verbatim>\<open>class_print_help\<close> prints.
\<close>

record cls =
  cls_name :: string
  cls_traits :: "(string \<times> trait) list"
  cls_print_help :: "string list"

text \<open>
  A logger of the \<^verbatim>\<open>logging\<close> module: its name, its own level and the format
  strings of the handlers attached to it.
\<close>

record logger =
  lg_name :: string
  lg_level :: int
  lg_handlers :: "string list"

text \<open>
  The instance. \<open>self_class\<close> is \<^verbatim>\<open>self.__class__\<close>. Configuration objects
  live in \<open>heap\<close>, a store indexed by address, and \<open>config\<close> is the address of the
  object \<^verbatim>\<open>self.config\<close> refers to, so that two references to one object can be
  told from two equal objects. A reference to an object is an address below the length of
  the store. The alias and flag tables are association lists in the dictionaries'
  iteration order. \<open>loggers\<close> is what the \<^verbatim>\<open>logging\<close> module holds: the loggers
  handed out so far, by name; \<open>log\<close> is the logger \<^verbatim>\<open>self.log\<close> refers to, in the
  state the module holds it in.
\<close>

record app =
  self_class :: cls
  app_name :: string
  description :: string
  flag_description :: string
  alias_description :: string
  keyvalue_description :: string
  classes :: "cls list"
  version :: string
  log_level :: int
  aliases :: "(string \<times> string) list"
  flags :: "(string \<times> py_value) list"
  config :: nat
  heap :: "config list"
  log :: "logger option"
  loggers :: "(string \<times> logger) list"

text \<open>
  What the module takes from outside: \<^verbatim>\<open>IPython.utils.text.indent\<close>, the
  \<^verbatim>\<open>load_config\<close> of a \<^verbatim>\<open>KeyValueConfigLoader\<close> built from the argument
  list and the alias and flag tables, and \<^verbatim>\<open>sys.argv\<close>.
\<close>

record env =
  indent :: "string \<Rightarrow> string"
  load_config ::
    "string list \<Rightarrow> (string \<times> string) list \<Rightarrow> (string \<times> py_value) list \<Rightarrow> py_error + config"
  sys_argv :: "string list"

section \<open>Construction\<close>

text \<open>
  The loop of \<^verbatim>\<open>__init__\<close> over \<^verbatim>\<open>self.flags.iteritems()\<close> with its three
  assertions; the first exception ends it.
\<close>

fun check_flags :: "(string \<times> py_value) list \<Rightarrow> py_error option" where
  "check_flags [] = None"
| "check_flags ((key, v) # rest) =
     (case py_len v of
        Inl e \<Rightarrow> Some e
      | Inr n \<Rightarrow>
          if n \<noteq> 2 then Some (AssertionError key v)
          else (case py_getitem v 0 of
                  Inl e \<Rightarrow> Some e
                | Inr v0 \<Rightarrow>
                    if \<not> isinstance_mapping v0 then Some (AssertionError key v)
                    else (case py_getitem v 1 of
                            Inl e \<Rightarrow> Some e
                          | Inr v1 \<Rightarrow>
                              if \<not> isinstance_basestring v1 then Some (AssertionError key v)
                              else check_flags rest)))"

text \<open>
  \<^verbatim>\<open>logging.getLogger(name)\<close>: the logger the module already holds under the name,
  with the level and the handlers it has; for a name first asked for, a new logger with no
  level of its own (\<open>NOTSET = 0\<close>) and no handler.
\<close>

definition getLogger :: "(string \<times> logger) list \<Rightarrow> string \<Rightarrow> logger" where
  "getLogger held name =
     (case map_of held name of
        Some lg \<Rightarrow> lg
      | None \<Rightarrow> \<lparr>lg_name = name, lg_level = 0, lg_handlers = []\<rparr>)"

definition setLevel :: "int \<Rightarrow> logger \<Rightarrow> logger" where
  "setLevel lvl lg = lg\<lparr>lg_level := lvl\<rparr>"

definition addHandler :: "string \<Rightarrow> logger \<Rightarrow> logger" where
  "addHandler fmt lg = lg\<lparr>lg_handlers := lg_handlers lg @ [fmt]\<rparr>"

text \<open>
  \<^verbatim>\<open>Logger.getEffectiveLevel\<close> of the \<^verbatim>\<open>logging\<close> module for a logger whose
  parent is the root logger (a class name has no dot): the logger's own level unless that
  is \<open>NOTSET\<close>, then the root logger's.
\<close>

definition getEffectiveLevel :: "int \<Rightarrow> logger \<Rightarrow> int" where
  "getEffectiveLevel root_level lg = (if lg_level lg \<noteq> 0 then lg_level lg else root_level)"

text \<open>
  \<^verbatim>\<open>init_logging\<close>. The level and the handler are set on the logger the module
  holds, so the module's logger of that name changes with \<^verbatim>\<open>self.log\<close>.
\<close>

definition init_logging :: "app \<Rightarrow> app" where
  "init_logging self =
     (let name = cls_name (self_class self);
          lg = getLogger (loggers self) name;
          lg = setLevel (log_level self) lg;
          log_formatter = ''[%(name)s] %(message)s'';
          lg = addHandler log_formatter lg
      in self\<lparr>log := Some lg, loggers := AList.update name lg (loggers self)\<rparr>)"

text \<open>
  \<^verbatim>\<open>__init__\<close>, from the attribute values the superclass initialiser has set. The
  instance is returned as the call leaves it, also when an exception ends the call.
\<close>

definition app_init :: "app \<Rightarrow> app \<times> outcome" where
  "app_init self =
     (let self = self\<lparr>classes := self_class self # classes self\<rparr> in
      case check_flags (flags self) of
        Some e \<Rightarrow> (self, Raised e)
      | None \<Rightarrow> (init_logging self, Returned))"

section \<open>The log level\<close>

text \<open>
  \<^verbatim>\<open>_log_level_changed(self, name, old, new)\<close>: the logger takes the new level. An
  instance that has no logger yet has no attribute \<^verbatim>\<open>log\<close>.
\<close>

definition log_level_changed :: "app \<Rightarrow> string \<Rightarrow> int \<Rightarrow> int \<Rightarrow> py_error + app" where
  "log_level_changed self name old new =
     (case log self of
        None \<Rightarrow> Inl AttributeError
      | Some lg \<Rightarrow>
          Inr (self\<lparr>log := Some (setLevel new lg),
                    loggers := AList.update (lg_name lg) (setLevel new lg) (loggers self)\<rparr>))"

text \<open>
  Modelled from the spec: the assignment \<^verbatim>\<open>app.log_level = v\<close>, which is the work of
  the attribute store (\<^verbatim>\<open>IPython.utils.traitlets\<close>, not part of this file). The
  attribute is an enumeration over \<open>0, 10, 20, 30, 40, 50\<close>; another value is refused.
  A value that differs from the stored one is stored, and the change notification calls
  \<^verbatim>\<open>_log_level_changed\<close>.
\<close>

definition log_levels :: "int list" where
  "log_levels = [0, 10, 20, 30, 40, 50]"

definition set_log_level :: "app \<Rightarrow> int \<Rightarrow> py_error + app" where
  "set_log_level self v =
     (if v \<notin> set log_levels then Inl TraitError
      else if v = log_level self then Inr self
      else log_level_changed (self\<lparr>log_level := v\<rparr>) ''log_level'' (log_level self) v)"

text \<open>A run of assignments, one after the other; the first exception ends it.\<close>

fun set_log_levels :: "app \<Rightarrow> int list \<Rightarrow> py_error + app" where
  "set_log_levels self [] = Inr self"
| "set_log_levels self (v # vs) =
     (case set_log_level self v of Inl e \<Rightarrow> Inl e | Inr self' \<Rightarrow> set_log_levels self' vs)"

section \<open>Help rendering\<close>

text \<open>
  Standard output is the list of the texts printed, one entry for each
  \<^verbatim>\<open>print\<close> statement (each ends its line). A printing function gives the entries
  it printed and the exception that ended it, if one did.
\<close>

type_synonym printed = "string list \<times> py_error option"

text \<open>
  \<^verbatim>\<open>classname, traitname = longname.split('.', 1)\<close>: the text before and after the
  first dot; \<open>None\<close> when there is no dot, where the unpacking raises a value error.
\<close>

fun split_dot :: "string \<Rightarrow> (string \<times> string) option" where
  "split_dot [] = None"
| "split_dot (c # cs) =
     (if c = CHR ''.'' then Some ([], cs)
      else (case split_dot cs of None \<Rightarrow> None | Some (a, b) \<Rightarrow> Some (c # a, b)))"

text \<open>
  The dictionary \<^verbatim>\<open>classdict\<close> of \<^verbatim>\<open>print_alias_help\<close>: a later class of the
  registry replaces an earlier one of the same name.
\<close>

definition classdict :: "cls list \<Rightarrow> string \<Rightarrow> cls option" where
  "classdict cs = foldl (\<lambda>d c. d(cls_name c \<mapsto> c)) Map.empty cs"

text \<open>
  The head of the loop body of \<^verbatim>\<open>print_alias_help\<close>: the target is split, the
  class is looked up in \<^verbatim>\<open>classdict\<close> and the trait among the configurable traits
  of the class. A missing key is a key error.
\<close>

definition resolve :: "(string \<Rightarrow> cls option) \<Rightarrow> string \<Rightarrow> py_error + trait" where
  "resolve cd longname =
     (case split_dot longname of
        None \<Rightarrow> Inl ValueError
      | Some (classname, traitname) \<Rightarrow>
          (case cd classname of
             None \<Rightarrow> Inl (KeyError (PStr classname))
           | Some c \<Rightarrow>
               (case map_of (cls_traits c) traitname of
                  None \<Rightarrow> Inl (KeyError (PStr traitname))
                | Some t \<Rightarrow> Inr t)))"

text \<open>
  The rest of the body: \<^verbatim>\<open>print alias, "(%s)"%longname, ':', trait.__class__.__name__\<close>
  and, when the help text is neither missing nor empty, the indented help text.
\<close>

definition alias_text :: "env \<Rightarrow> string \<Rightarrow> string \<Rightarrow> trait \<Rightarrow> string list" where
  "alias_text E alias longname t =
     (alias @ '' ('' @ longname @ '') : '' @ trait_type t) #
     (case trait_help t of
        None \<Rightarrow> []
      | Some h \<Rightarrow> if h = [] then [] else [indent E h])"

fun alias_loop :: "env \<Rightarrow> (string \<Rightarrow> cls option) \<Rightarrow> (string \<times> string) list \<Rightarrow> printed" where
  "alias_loop E cd [] = ([], None)"
| "alias_loop E cd ((alias, longname) # rest) =
     (case resolve cd longname of
        Inl e \<Rightarrow> ([], Some e)
      | Inr t \<Rightarrow>
          (case alias_loop E cd rest of
             (out, err) \<Rightarrow> (alias_text E alias longname t @ out, err)))"

definition print_alias_help :: "env \<Rightarrow> app \<Rightarrow> printed" where
  "print_alias_help E self =
     (if aliases self = [] then ([], None)
      else (case alias_loop E (classdict (classes self)) (aliases self) of
              (out, err) \<Rightarrow>
                ([''Aliases'', ''-------'', alias_description self, []] @ out @
                   (case err of None \<Rightarrow> [[]] | Some e \<Rightarrow> []),
                 err)))"

text \<open>
  The loop of \<^verbatim>\<open>print_flag_help\<close>. \<^verbatim>\<open>indent\<close> is applied to a string; what it
  does with another value is not this file's, a type error stands for it.
\<close>

fun flag_loop :: "env \<Rightarrow> (string \<times> py_value) list \<Rightarrow> printed" where
  "flag_loop E [] = ([], None)"
| "flag_loop E ((m, v) # rest) =
     (case unpack2 v of
        Inl e \<Rightarrow> ([], Some e)
      | Inr (cfg, hlp) \<Rightarrow>
          (case hlp of
             PStr h \<Rightarrow>
               (case flag_loop E rest of (out, err) \<Rightarrow> ([''--'' @ m, indent E h] @ out, err))
           | _ \<Rightarrow> ([''--'' @ m], Some TypeError)))"

definition print_flag_help :: "env \<Rightarrow> app \<Rightarrow> printed" where
  "print_flag_help E self =
     (if flags self = [] then ([], None)
      else (case flag_loop E (flags self) of
              (out, err) \<Rightarrow>
                ([''Flags'', ''-----'', flag_description self, []] @ out @
                   (case err of None \<Rightarrow> [[]] | Some e \<Rightarrow> []),
                 err)))"

text \<open>One statement after another: an exception in the first skips the second.\<close>

definition and_then :: "printed \<Rightarrow> printed \<Rightarrow> printed" where
  "and_then p q =
     (case p of
        (out, Some e) \<Rightarrow> (out, Some e)
      | (out, None) \<Rightarrow> (case q of (out', err) \<Rightarrow> (out @ out', err)))"

text \<open>
  The last loop of \<^verbatim>\<open>print_help\<close>: each class prints its own help, then an empty
  line.
\<close>

definition class_help :: "cls list \<Rightarrow> string list" where
  "class_help cs = concat (map (\<lambda>c. cls_print_help c @ [[]]) cs)"

definition print_help :: "env \<Rightarrow> app \<Rightarrow> printed" where
  "print_help E self =
     and_then (print_flag_help E self)
       (and_then (print_alias_help E self)
          ((if classes self \<noteq> []
            then [''Class parameters'', ''----------------'', keyvalue_description self, []]
            else []) @ class_help (classes self),
           None))"

definition print_description :: "app \<Rightarrow> string list" where
  "print_description self = [description self, []]"

definition print_version :: "app \<Rightarrow> string list" where
  "print_version self = [version self]"

section \<open>Configuration\<close>

text \<open>
  Modelled from the spec: \<^verbatim>\<open>Config._merge\<close> of \<^verbatim>\<open>IPython.config.loader\<close>,
  which is not part of this file: "new keys/values overwrite or are added; structure is
  preserved for nested sections". A key of the other configuration that holds a nested
  configuration is merged into the nested configuration already there.
\<close>

fun config_merge :: "config \<Rightarrow> config \<Rightarrow> config" where
  "config_merge mine [] = mine"
| "config_merge mine ((k, PConfig sub) # other) =
     config_merge
       (case map_of mine k of
          Some (PConfig old) \<Rightarrow> AList.update k (PConfig (config_merge old sub)) mine
        | _ \<Rightarrow> AList.update k (PConfig sub) mine)
       other"
| "config_merge mine ((k, v) # other) = config_merge (AList.update k v mine) other"

text \<open>A new object is stored at the first free address.\<close>

definition alloc :: "config list \<Rightarrow> config \<Rightarrow> config list \<times> nat" where
  "alloc h c = (h @ [c], length h)"

text \<open>
  \<^verbatim>\<open>copy.deepcopy\<close> of the configuration at an address: a new object with the same
  contents.
\<close>

definition deepcopy :: "config list \<Rightarrow> nat \<Rightarrow> config list \<times> nat" where
  "deepcopy h r = alloc h (h ! r)"

text \<open>\<^verbatim>\<open>newconfig._merge(config)\<close> changes the object at \<open>newconfig\<close> in place.\<close>

definition merge_at :: "config list \<Rightarrow> nat \<Rightarrow> nat \<Rightarrow> config list" where
  "merge_at h newconfig cfg = h[newconfig := config_merge (h ! newconfig) (h ! cfg)]"

text \<open>
  \<^verbatim>\<open>update_config(self, config)\<close>, with \<open>cfg\<close> the address of the incoming object.
  The three statements of the source in their order; the last one stores the reference.
  The change notification that the attribute store runs on that assignment sets other
  attributes from the new configuration; it is not part of this file and is left out.
\<close>

definition update_config :: "app \<Rightarrow> nat \<Rightarrow> app" where
  "update_config self cfg =
     (let (h, newconfig) = deepcopy (heap self) (config self);
          h = merge_at h newconfig cfg
      in self\<lparr>heap := h, config := cfg\<rparr>)"

section \<open>The command line\<close>

text \<open>\<^verbatim>\<open>argv = sys.argv[1:] if argv is None else argv\<close>.\<close>

definition argv_of :: "env \<Rightarrow> string list option \<Rightarrow> string list" where
  "argv_of E argv0 = (case argv0 of None \<Rightarrow> drop 1 (sys_argv E) | Some a \<Rightarrow> a)"

text \<open>
  \<^verbatim>\<open>parse_command_line(self, argv=None)\<close>: the instance as the call leaves it, what
  it printed and how it ended. The configuration object the loader returns is a new
  object of the store.
\<close>

definition parse_command_line :: "env \<Rightarrow> app \<Rightarrow> string list option \<Rightarrow> app \<times> string list \<times> outcome" where
  "parse_command_line E self argv0 =
     (let argv = argv_of E argv0 in
      if ''-h'' \<in> set argv \<or> ''--help'' \<in> set argv then
        (case print_help E self of
           (out, Some e) \<Rightarrow> (self, print_description self @ out, Raised e)
         | (out, None) \<Rightarrow> (self, print_description self @ out, Exited 1))
      else if ''--version'' \<in> set argv then (self, print_version self, Exited 1)
      else
        (case load_config E argv (aliases self) (flags self) of
           Inl e \<Rightarrow> (self, [], Raised e)
         | Inr c \<Rightarrow>
             (let (h, r) = alloc (heap self) c
              in (update_config (self\<lparr>heap := h\<rparr>) r, [], Returned))))"

section \<open>Well-formed tables\<close>

text \<open>
  A flag value as the data model asks for it: a pair (a tuple or a list of two items)
  whose first item is a mapping and whose second is a string.
\<close>

fun is_flag_pair :: "py_value \<Rightarrow> bool" where
  "is_flag_pair (PTuple [c, h]) = (isinstance_mapping c \<and> isinstance_basestring h)"
| "is_flag_pair (PList [c, h]) = (isinstance_mapping c \<and> isinstance_basestring h)"
| "is_flag_pair _ = False"



text \<open>The help string of a flag pair, and the two entries printed for a flag.\<close>

fun flag_help :: "py_value \<Rightarrow> string" where
  "flag_help (PTuple [c, PStr h]) = h"
| "flag_help (PList [c, PStr h]) = h"
| "flag_help _ = []"

definition flag_text :: "env \<Rightarrow> string \<times> py_value \<Rightarrow> string list" where
  "flag_text E = (\<lambda>(m, v). [''--'' @ m, indent E (flag_help v)])"

text \<open>
  An alias target resolves when it names a configurable trait of a class of the
  registry; \<open>resolved\<close> is that trait.
\<close>

definition resolves :: "(string \<Rightarrow> cls option) \<Rightarrow> string \<Rightarrow> bool" where
  "resolves cd longname = (case resolve cd longname of Inl e \<Rightarrow> False | Inr t \<Rightarrow> True)"

definition resolved :: "(string \<Rightarrow> cls option) \<Rightarrow> string \<Rightarrow> trait" where
  "resolved cd longname =
     (case resolve cd longname of Inl e \<Rightarrow> \<lparr>trait_type = [], trait_help = None\<rparr> | Inr t \<Rightarrow> t)"

definition flags_ok :: "app \<Rightarrow> bool" where
  "flags_ok self = list_all (\<lambda>(m, v). is_flag_pair v) (flags self)"

definition aliases_ok :: "app \<Rightarrow> bool" where
  "aliases_ok self = list_all (\<lambda>(alias, longname). resolves (classdict (classes self)) longname) (aliases self)"


text \<open>After construction the logger's level is the attribute's.\<close>

definition log_bound :: "app \<Rightarrow> bool" where
  "log_bound self = (case log self of None \<Rightarrow> False | Some lg \<Rightarrow> lg_level lg = log_level self)"

section \<open>Example data\<close>

text \<open>The three module-level description texts, after \<^verbatim>\<open>strip()\<close>.\<close>

definition flag_description_text :: string where
  "flag_description_text = ''Flags are command-line arguments passed as '--<flag>'.\<newline>These take no parameters, unlike regular key-value arguments.\<newline>They are typically used for setting boolean flags, or enabling\<newline>modes that involve setting multiple options together.''"

definition alias_description_text :: string where
  "alias_description_text = ''These are commonly set parameters, given abbreviated aliases for convenience.\<newline>They are set in the same `name=value` way as class parameters, where\<newline><name> is replaced by the real parameter for which it is an alias.''"

definition keyvalue_description_text :: string where
  "keyvalue_description_text = ''Parameters are set from command-line arguments of the form:\<newline>`Class.trait=value`.  Parameters will *never* be prefixed with '-'.\<newline>This line is evaluated in Python, so simple expressions are allowed, e.g.\<newline>    `C.a='range(3)'`   For setting C.a=[0,1,2]''"

text \<open>
  The class \<^verbatim>\<open>Application\<close> with its one configurable trait, and a subclass
  \<^verbatim>\<open>MyApp\<close> that declares nothing of its own.
\<close>

definition Application :: cls where
  "Application =
     \<lparr>cls_name = ''Application'',
      cls_traits =
        [(''log_level'',
          \<lparr>trait_type = ''Enum'', trait_help = Some ''Set the log level (0,10,20,30,40,50).''\<rparr>)],
      cls_print_help = [''Application options'']\<rparr>"

definition MyApp :: cls where
  "MyApp = Application\<lparr>cls_name := ''MyApp'', cls_print_help := [''MyApp options'']\<rparr>"

text \<open>
  An instance of a class with the attribute defaults the class \<^verbatim>\<open>Application\<close>
  declares, before \<^verbatim>\<open>__init__\<close> runs; its configuration is one empty object, and
  the \<^verbatim>\<open>logging\<close> module has handed out no logger yet.
\<close>

definition new_app :: "cls \<Rightarrow> app" where
  "new_app c =
     \<lparr>self_class = c,
      app_name = ''application'',
      description = ''This is an application.'',
      flag_description = flag_description_text,
      alias_description = alias_description_text,
      keyvalue_description = keyvalue_description_text,
      classes = [],
      version = ''0.0'',
      log_level = 30,
      aliases = [(''log_level'', ''Application.log_level'')],
      flags = [],
      config = 0,
      heap = [[]],
      log = None,
      loggers = []\<rparr>"

text \<open>
  An environment: \<^verbatim>\<open>indent\<close> puts four spaces before the text, the loader finds
  nothing to set, the process was started with no argument.
\<close>

definition std_env :: env where
  "std_env =
     \<lparr>indent = (\<lambda>s. ''    '' @ s),
      load_config = (\<lambda>argv al fl. Inr []),
      sys_argv = [''app'']\<rparr>"


text \<open>
  An instance with two configuration objects in the store: its own at address 0, and one
  at address 1 that a caller is about to hand in.
\<close>

definition two_configs :: app where
  "two_configs =
     (new_app Application)
       \<lparr>heap := [[(''A'', PConfig [(''x'', PInt 1)])], [(''B'', PConfig [(''y'', PInt 2)])]]\<rparr>"




text \<open>
  The flag table \<^verbatim>\<open>{"x": {0: {}, 1: "h"}}\<close>, whose value is a dictionary with the
  keys 0 and 1.
\<close>

definition int_keyed_flags :: "(string \<times> py_value) list" where
  "int_keyed_flags = [(''x'', PDict [(PInt 0, PDict []), (PInt 1, PStr ''h'')])]"


section \<open>Construction inserts the class\<close>

lemma classes_app_init: "classes (fst (app_init self)) = self_class self # classes self"
  by (simp add: app_init_def init_logging_def Let_def split: option.split)

text \<open>
  C5. Whatever class the instance is of, and however the constructor ends (also when the
  flag check raises), the constructor leaves the instance's own class at position 0 of
  \<open>classes\<close>, in front of the classes that were there.
\<close>

theorem init_inserts_own_class:
  "classes (fst (app_init self)) ! 0 = self_class self \<and>
   classes (fst (app_init self)) = self_class self # classes self"
  by (simp add: classes_app_init)

theorem init_inserts_own_class_witness:
  "classes (fst (app_init (new_app MyApp))) ! 0 = MyApp \<and>
   snd (app_init (new_app MyApp)) = Returned"
  using init_inserts_own_class [of "new_app MyApp"]
  by (simp add: new_app_def app_init_def)

section \<open>The version request\<close>

text \<open>
  C4. When the argument list holds \<^verbatim>\<open>--version\<close> and neither \<^verbatim>\<open>-h\<close> nor
  \<^verbatim>\<open>--help\<close>, \<open>parse_command_line\<close> prints the version string and nothing else, and
  ends the process with exit status 1; the instance is as it was.
\<close>

theorem version_path:
  assumes "''--version'' \<in> set (argv_of E argv0)"
    and "''-h'' \<notin> set (argv_of E argv0)"
    and "''--help'' \<notin> set (argv_of E argv0)"
  shows "parse_command_line E self argv0 = (self, [version self], Exited 1)"
  using assms by (simp add: parse_command_line_def print_version_def)

theorem version_path_witness:
  "parse_command_line std_env (new_app Application) (Some [''x=1'', ''--version'']) =
     (new_app Application, [''0.0''], Exited 1)"
proof -
  have "version (new_app Application) = ''0.0''"
    by (simp add: new_app_def)
  then show ?thesis
    using version_path [of std_env "Some [''x=1'', ''--version'']" "new_app Application"]
    by (simp add: argv_of_def)
qed

section \<open>The stored configuration\<close>

lemma update_config_eq:
  "update_config self cfg =
     self\<lparr>heap := heap self @
              [config_merge (heap self ! config self) ((heap self @ [heap self ! config self]) ! cfg)],
          config := cfg\<rparr>"
  by (simp add: update_config_def deepcopy_def alloc_def merge_at_def)

text \<open>
  C1. Whatever configuration the instance held, after \<open>update_config\<close> its \<open>config\<close>
  is the address of the incoming object itself, and that object is unchanged. The deep
  copy of the old configuration, merged with the incoming one, is a new object at the
  next free address of the store, which \<open>config\<close> does not refer to.
\<close>

theorem update_config_stores_incoming:
  assumes "cfg < length (heap self)"
  shows "config (update_config self cfg) = cfg \<and>
         config (update_config self cfg) \<noteq> length (heap self) \<and>
         heap (update_config self cfg) ! cfg = heap self ! cfg \<and>
         heap (update_config self cfg) ! length (heap self) =
           config_merge (heap self ! config self) (heap self ! cfg)"
  using assms by (simp add: update_config_eq nth_append)

text \<open>
  With \<^verbatim>\<open>{A: {x: 1}}\<close> stored and \<^verbatim>\<open>{B: {y: 2}}\<close> coming in, the instance ends
  with the incoming object, and the merge of the two is the unreferenced object at
  address 2.
\<close>

theorem update_config_stores_incoming_witness:
  "config (update_config two_configs 1) = 1 \<and>
   heap (update_config two_configs 1) ! 1 = [(''B'', PConfig [(''y'', PInt 2)])] \<and>
   heap (update_config two_configs 1) ! 2 =
     [(''A'', PConfig [(''x'', PInt 1)]), (''B'', PConfig [(''y'', PInt 2)])]"
proof -
  have h: "(1::nat) < length (heap two_configs)"
    by code_simp
  have l: "length (heap two_configs) = 2"
    by code_simp
  have e: "heap two_configs ! 1 = [(''B'', PConfig [(''y'', PInt 2)])]"
    by code_simp
  have m: "config_merge (heap two_configs ! config two_configs) (heap two_configs ! 1) =
             [(''A'', PConfig [(''x'', PInt 1)]), (''B'', PConfig [(''y'', PInt 2)])]"
    by code_simp
  from update_config_stores_incoming [OF h] l e m show ?thesis
    by simp
qed

section \<open>The flag check of the constructor\<close>








text \<open>
  The checks of the constructor are the three the source writes, on whatever value has a
  length and the items 0 and 1: a dictionary with the keys 0 and 1, a mapping under 0 and
  a string under 1, passes them although it is no pair.
\<close>

lemma int_keyed_dict_passes:
  "\<not> is_flag_pair (snd (hd int_keyed_flags)) \<and>
   snd (app_init ((new_app Application)\<lparr>flags := int_keyed_flags\<rparr>)) = Returned"
  by code_simp




section \<open>The log level follows the attribute\<close>

lemma app_init_log_bound: "snd (app_init self) = Returned \<Longrightarrow> log_bound (fst (app_init self))"
  by (auto simp: app_init_def Let_def init_logging_def log_bound_def setLevel_def addHandler_def
      getLogger_def split: option.splits)

lemma set_log_level_bound:
  assumes "log_bound self" "v \<in> set log_levels"
  shows "\<exists>self'. set_log_level self v = Inr self' \<and> log_bound self' \<and> log_level self' = v"
  using assms
  by (auto simp: set_log_level_def log_level_changed_def log_bound_def setLevel_def
      split: option.splits)

lemma set_log_levels_bound:
  assumes "log_bound self" "list_all (\<lambda>v. v \<in> set log_levels) vs"
  shows "\<exists>self'. set_log_levels self vs = Inr self' \<and> log_bound self' \<and>
           log_level self' = last (log_level self # vs)"
  using assms
proof (induction vs arbitrary: self)
  case Nil
  then show ?case by simp
next
  case (Cons v vs)
  from Cons.prems have v: "v \<in> set log_levels"
    and vs: "list_all (\<lambda>v. v \<in> set log_levels) vs"
    by simp_all
  from set_log_level_bound [OF Cons.prems(1) v] obtain s1
    where s1: "set_log_level self v = Inr s1" "log_bound s1" "log_level s1 = v"
    by blast
  from Cons.IH [OF s1(2) vs] obtain s2
    where s2: "set_log_levels s1 vs = Inr s2" "log_bound s2"
      "log_level s2 = last (log_level s1 # vs)"
    by blast
  with s1 show ?case by auto
qed

text \<open>
  C6, amended. After a construction that returned, and after any run of earlier
  assignments of allowed values, assigning an allowed value \<open>v\<close> to \<open>log_level\<close>
  succeeds and leaves the logger's own level at exactly \<open>v\<close>. The logger's effective
  level is then \<open>v\<close> when \<open>v\<close> is not 0, and the root logger's level when \<open>v\<close> is 0.
\<close>

theorem log_level_live:
  assumes "snd (app_init self0) = Returned"
    and "list_all (\<lambda>u. u \<in> set log_levels) vs"
    and "v \<in> set log_levels"
  shows "\<exists>self' lg. set_log_levels (fst (app_init self0)) (vs @ [v]) = Inr self' \<and>
           log_level self' = v \<and> log self' = Some lg \<and> lg_level lg = v \<and>
           getEffectiveLevel root lg = (if v = 0 then root else v)"
proof -
  from assms(2,3) have "list_all (\<lambda>u. u \<in> set log_levels) (vs @ [v])"
    by simp
  from set_log_levels_bound [OF app_init_log_bound [OF assms(1)] this]
  obtain self' where s: "set_log_levels (fst (app_init self0)) (vs @ [v]) = Inr self'"
    "log_bound self'" "log_level self' = v"
    by auto
  from s(2,3) obtain lg where "log self' = Some lg" "lg_level lg = v"
    by (auto simp: log_bound_def split: option.splits)
  with s show ?thesis
    by (auto simp: getEffectiveLevel_def)
qed

text \<open>
  The constructed \<^verbatim>\<open>Application\<close>, \<open>log_level\<close> set to 10 and then to 40, with the
  root logger at its default \<^verbatim>\<open>WARNING\<close> (30): the attribute, the logger's level
  and its effective level are 40.
\<close>

theorem log_level_live_witness:
  "map_sum id
     (\<lambda>s. (log_level s, map_option lg_level (log s), map_option (getEffectiveLevel 30) (log s)))
     (set_log_levels (fst (app_init (new_app Application))) [10, 40]) =
   Inr (40, Some 40, Some 40)"
proof -
  have 1: "snd (app_init (new_app Application)) = Returned"
    by code_simp
  have 2: "list_all (\<lambda>u. u \<in> set log_levels) [10]" and 3: "40 \<in> set log_levels"
    by (simp_all add: log_levels_def)
  from log_level_live [OF 1 2 3, of 30] show ?thesis
    by auto
qed

text \<open>
  The same instance with \<open>log_level\<close> set to 0: the logger's level is 0 and its
  effective level is the root logger's 30, not 0.
\<close>

theorem log_level_live_counterexample:
  "map_sum id
     (\<lambda>s. (log_level s, map_option lg_level (log s), map_option (getEffectiveLevel 30) (log s)))
     (set_log_level (fst (app_init (new_app Application))) 0) =
   Inr (0, Some 0, Some 30)"
  by code_simp

section \<open>Aliases that do not resolve\<close>









section \<open>Flag help and alias help\<close>

lemma unpack2_flag_pair: "is_flag_pair v \<Longrightarrow> \<exists>c. unpack2 v = Inr (c, PStr (flag_help v))"
  by (induction v rule: is_flag_pair.induct) (auto elim: isinstance_basestring.elims)

lemma flag_loop_ok:
  "list_all (\<lambda>(m, v). is_flag_pair v) fl \<Longrightarrow>
   flag_loop E fl = (concat (map (flag_text E) fl), None)"
proof (induction fl)
  case Nil
  then show ?case by simp
next
  case (Cons a fl)
  obtain m v where a: "a = (m, v)" by (cases a)
  from Cons.prems a have "is_flag_pair v" and rest: "list_all (\<lambda>(m, v). is_flag_pair v) fl"
    by simp_all
  from unpack2_flag_pair [OF this(1)] obtain c where "unpack2 v = Inr (c, PStr (flag_help v))" ..
  with Cons.IH [OF rest] show ?case
    by (simp add: a flag_text_def)
qed

lemma alias_loop_ok:
  "list_all (\<lambda>(a, l). resolves cd l) al \<Longrightarrow>
   alias_loop E cd al = (concat (map (\<lambda>(a, l). alias_text E a l (resolved cd l)) al), None)"
proof (induction al)
  case Nil
  then show ?case by simp
next
  case (Cons x al)
  obtain a l where x: "x = (a, l)" by (cases x)
  from Cons.prems x have "resolves cd l" and rest: "list_all (\<lambda>(a, l). resolves cd l) al"
    by simp_all
  then obtain t where "resolve cd l = Inr t" "resolved cd l = t"
    by (auto simp: resolves_def resolved_def split: sum.splits)
  with Cons.IH [OF rest] show ?case
    by (simp add: x)
qed

lemma print_flag_help_ok:
  "flags_ok self \<Longrightarrow>
   print_flag_help E self =
     (if flags self = [] then ([], None)
      else ([''Flags'', ''-----'', flag_description self, []] @
            concat (map (flag_text E) (flags self)) @ [[]], None))"
  by (simp add: print_flag_help_def flags_ok_def flag_loop_ok)

lemma print_alias_help_ok:
  "aliases_ok self \<Longrightarrow>
   print_alias_help E self =
     (if aliases self = [] then ([], None)
      else ([''Aliases'', ''-------'', alias_description self, []] @
            concat (map (\<lambda>(a, l). alias_text E a l (resolved (classdict (classes self)) l))
                     (aliases self)) @ [[]], None))"
  by (simp add: print_alias_help_def aliases_ok_def alias_loop_ok)




section \<open>The help request\<close>

lemma print_help_ok:
  assumes "flags_ok self" "aliases_ok self"
  shows "print_help E self =
           (fst (print_flag_help E self) @ fst (print_alias_help E self) @
            (if classes self \<noteq> []
             then [''Class parameters'', ''----------------'', keyvalue_description self, []]
             else []) @ class_help (classes self), None)"
  using assms
  by (simp add: print_help_def and_then_def print_flag_help_ok print_alias_help_ok)




section \<open>Help comes before version\<close>

lemma print_help_version: "print_help E (self\<lparr>version := w\<rparr>) = print_help E self"
  by (simp add: print_help_def print_flag_help_def print_alias_help_def)

text \<open>
  C9, amended. When the argument list holds a help token and \<^verbatim>\<open>--version\<close>,
  \<open>parse_command_line\<close> does what it does for the help token alone, and what it prints
  and how it ends do not depend on the version string. With flag values that are the
  pairs the constructor checks for and alias targets that all resolve, it prints the
  description and the full help and ends the process with exit status 1.
\<close>

theorem help_before_version:
  assumes "''-h'' \<in> set (argv_of E argv0) \<or> ''--help'' \<in> set (argv_of E argv0)"
    and "''--version'' \<in> set (argv_of E argv0)"
  shows "parse_command_line E self argv0 = parse_command_line E self (Some [''--help'']) \<and>
         snd (parse_command_line E (self\<lparr>version := w\<rparr>) argv0) =
           snd (parse_command_line E self argv0) \<and>
         (flags_ok self \<and> aliases_ok self \<longrightarrow>
            parse_command_line E self argv0 =
              (self, print_description self @ fst (print_help E self), Exited 1))"
  using assms
  by (auto simp: parse_command_line_def Let_def print_help_version print_help_ok argv_of_def
      print_description_def split: prod.splits option.splits)

theorem help_before_version_witness:
  "parse_command_line std_env (fst (app_init (new_app Application)))
     (Some [''--version'', ''--help'']) =
     (fst (app_init (new_app Application)),
      [''This is an application.'', [],
       ''Aliases'', ''-------'', alias_description_text, [],
       ''log_level (Application.log_level) : Enum'',
       ''    Set the log level (0,10,20,30,40,50).'', [],
       ''Class parameters'', ''----------------'', keyvalue_description_text, [],
       ''Application options'', []],
      Exited 1)"
proof -
  let ?s = "fst (app_init (new_app Application))"
  let ?a = "Some [''--version'', ''--help'']"
  have 1: "''-h'' \<in> set (argv_of std_env ?a) \<or> ''--help'' \<in> set (argv_of std_env ?a)"
    by code_simp
  have 2: "''--version'' \<in> set (argv_of std_env ?a)"
    by code_simp
  have ok: "flags_ok ?s \<and> aliases_ok ?s"
    by code_simp
  have e: "print_description ?s @ fst (print_help std_env ?s) =
      [''This is an application.'', [],
       ''Aliases'', ''-------'', alias_description_text, [],
       ''log_level (Application.log_level) : Enum'',
       ''    Set the log level (0,10,20,30,40,50).'', [],
       ''Class parameters'', ''----------------'', keyvalue_description_text, [],
       ''Application options'', []]"
    by code_simp
  from help_before_version [OF 1 2, where self = ?s and w = "''1.0''"] ok
  have "parse_command_line std_env ?s ?a =
          (?s, print_description ?s @ fst (print_help std_env ?s), Exited 1)"
    by blast
  with e show ?thesis
    by simp
qed

text \<open>
  The subclass \<^verbatim>\<open>MyApp\<close> with the inherited alias table, given both tokens: the
  version is not printed, and the call ends with the key error of the alias help, not
  with exit status 1.
\<close>

theorem help_before_version_counterexample:
  "snd (parse_command_line std_env (fst (app_init (new_app MyApp)))
          (Some [''--version'', ''-h''])) =
     ([''This is an application.'', [], ''Aliases'', ''-------'', alias_description_text, []],
      Raised (KeyError (PStr ''Application'')))"
  by code_simp

section \<open>Help and version requests leave the instance alone\<close>

lemma alias_loop_load_config: "alias_loop (E\<lparr>load_config := L\<rparr>) cd al = alias_loop E cd al"
  by (induction al) (auto simp: alias_text_def split: sum.splits prod.splits option.splits)

lemma flag_loop_load_config: "flag_loop (E\<lparr>load_config := L\<rparr>) fl = flag_loop E fl"
  by (induction fl) (auto split: sum.splits prod.splits py_value.splits)

lemma print_help_load_config: "print_help (E\<lparr>load_config := L\<rparr>) self = print_help E self"
  by (simp add: print_help_def print_flag_help_def print_alias_help_def
      alias_loop_load_config flag_loop_load_config)

lemma argv_of_load_config: "argv_of (E\<lparr>load_config := L\<rparr>) argv0 = argv_of E argv0"
  by (simp add: argv_of_def split: option.split)

lemma parse_help_version:
  assumes "''-h'' \<in> set (argv_of E argv0) \<or> ''--help'' \<in> set (argv_of E argv0)
           \<or> ''--version'' \<in> set (argv_of E argv0)"
  shows "parse_command_line E self argv0 =
           (if ''-h'' \<in> set (argv_of E argv0) \<or> ''--help'' \<in> set (argv_of E argv0)
            then (self, print_description self @ fst (print_help E self),
                  case snd (print_help E self) of None \<Rightarrow> Exited 1 | Some e \<Rightarrow> Raised e)
            else (self, print_version self, Exited 1))"
  using assms
  by (auto simp: parse_command_line_def Let_def split: prod.splits option.splits)

text \<open>
  C10, amended. When the argument list holds \<^verbatim>\<open>-h\<close>, \<^verbatim>\<open>--help\<close> or
  \<^verbatim>\<open>--version\<close>, the call leaves \<open>parse_command_line\<close> before the loader is
  built and before \<open>update_config\<close>: the instance (its stored configuration, the store
  and every other attribute) is as it was, and the result is the same whatever the loader
  would have done. With a help token the call prints the description and what
  \<open>print_help\<close> prints, and ends the process with exit status 1 unless \<open>print_help\<close>
  raised, in which case that exception leaves the call; without a help token it prints the
  version and ends the process with exit status 1. With flag values that are the pairs
  the constructor checks for and alias targets that all resolve, the process is ended with
  exit status 1 in every case.
\<close>

theorem help_version_frame:
  assumes "''-h'' \<in> set (argv_of E argv0) \<or> ''--help'' \<in> set (argv_of E argv0)
           \<or> ''--version'' \<in> set (argv_of E argv0)"
  shows "fst (parse_command_line E self argv0) = self \<and>
         parse_command_line (E\<lparr>load_config := L\<rparr>) self argv0 = parse_command_line E self argv0 \<and>
         parse_command_line E self argv0 =
           (if ''-h'' \<in> set (argv_of E argv0) \<or> ''--help'' \<in> set (argv_of E argv0)
            then (self, print_description self @ fst (print_help E self),
                  case snd (print_help E self) of None \<Rightarrow> Exited 1 | Some e \<Rightarrow> Raised e)
            else (self, print_version self, Exited 1)) \<and>
         (flags_ok self \<and> aliases_ok self \<longrightarrow>
            snd (snd (parse_command_line E self argv0)) = Exited 1)"
proof -
  note p = parse_help_version [OF assms]
  have a: "fst (parse_command_line E self argv0) = self"
    by (simp add: p)
  from assms have "''-h'' \<in> set (argv_of (E\<lparr>load_config := L\<rparr>) argv0) \<or>
      ''--help'' \<in> set (argv_of (E\<lparr>load_config := L\<rparr>) argv0) \<or>
      ''--version'' \<in> set (argv_of (E\<lparr>load_config := L\<rparr>) argv0)"
    by (simp add: argv_of_load_config)
  from parse_help_version [OF this]
  have b: "parse_command_line (E\<lparr>load_config := L\<rparr>) self argv0 = parse_command_line E self argv0"
    by (simp add: p argv_of_load_config print_help_load_config)
  have c: "snd (snd (parse_command_line E self argv0)) = Exited 1"
    if "flags_ok self" "aliases_ok self"
    using that by (simp add: p print_help_ok)
  from a b c p show ?thesis
    by blast
qed

text \<open>
  At the constructed \<^verbatim>\<open>Application\<close> the help request ends the process with exit
  status 1 and leaves the instance as it was, its \<open>config\<close> still the address 0; a call
  with no special token goes through \<open>update_config\<close> and leaves \<open>config\<close> at the
  address of the loader's object.
\<close>

theorem help_version_frame_witness:
  "fst (parse_command_line std_env (fst (app_init (new_app Application))) (Some [''--help''])) =
     fst (app_init (new_app Application)) \<and>
   snd (snd (parse_command_line std_env (fst (app_init (new_app Application)))
               (Some [''--help'']))) = Exited 1 \<and>
   config (fst (app_init (new_app Application))) = 0 \<and>
   config (fst (parse_command_line std_env (fst (app_init (new_app Application))) None)) = 1"
proof -
  let ?s = "fst (app_init (new_app Application))"
  have h: "''-h'' \<in> set (argv_of std_env (Some [''--help''])) \<or>
        ''--help'' \<in> set (argv_of std_env (Some [''--help''])) \<or>
        ''--version'' \<in> set (argv_of std_env (Some [''--help'']))"
    by code_simp
  have ok: "flags_ok ?s \<and> aliases_ok ?s"
    by code_simp
  have c: "config ?s = 0 \<and> config (fst (parse_command_line std_env ?s None)) = 1"
    by code_simp
  from help_version_frame [OF h, where self = ?s and L = "load_config std_env"] ok
  have "fst (parse_command_line std_env ?s (Some [''--help''])) = ?s \<and>
        snd (snd (parse_command_line std_env ?s (Some [''--help'']))) = Exited 1"
    by blast
  with c show ?thesis
    by simp
qed

text \<open>
  The subclass \<^verbatim>\<open>MyApp\<close> with the inherited alias table, called with
  \<^verbatim>\<open>-h\<close>: the instance is as it was, but the call ends with the key error of the
  alias help; the process is not ended by \<^verbatim>\<open>sys.exit\<close>.
\<close>

theorem help_version_frame_counterexample:
  "parse_command_line std_env (fst (app_init (new_app MyApp))) (Some [''-h'', ''x=1'']) =
     (fst (app_init (new_app MyApp)),
      [''This is an application.'', [], ''Aliases'', ''-------'', alias_description_text, []],
      Raised (KeyError (PStr ''Application'')))"
  by code_simp

end
